theory Spec2Isabelle
  imports Main "HOL-Library.Word"
begin

section \<open>Go values used by package cemi\<close>

text \<open>
  A byte is an 8-bit word. Go's \<^verbatim>\<open>uint\<close> and \<^verbatim>\<open>int\<close> hold lengths and byte counts
  only; every sum the package forms is \<open>1 + len\<close>, \<open>1 + L\<close> with \<open>L \<le> 255\<close>, or one
  more than the count of input bytes a body's decoder reports, far below the word size,
  so they are natural numbers here. The two narrowing conversions
  \<^verbatim>\<open>byte(len(info))\<close> and \<^verbatim>\<open>uint8(len(info))\<close> are \<open>of_nat\<close> into the 8-bit word,
  which keeps the low eight bits.
\<close>

type_synonym byte = "8 word"

text \<open>Run-time panics of the slice operations, and the \<^verbatim>\<open>error\<close> values returned.\<close>

datatype panic = IndexOutOfRange | SliceBoundsOutOfRange

datatype error = ErrUnexpectedEOF | ErrOther string

datatype 'a outcome = Returns 'a | Panics panic

text \<open>
  A slice \<^verbatim>\<open>[]byte\<close> is a window on a backing array: \<open>elems\<close> are the \<^verbatim>\<open>len\<close>
  visible bytes, \<open>spare\<close> the bytes of the backing array between \<^verbatim>\<open>len\<close> and
  \<^verbatim>\<open>cap\<close>, which a slice expression with an explicit upper bound may uncover.
  The \<^verbatim>\<open>nil\<close> slice has neither.
\<close>

datatype slice = Slice (elems: "byte list") (spare: "byte list")

definition len :: "slice \<Rightarrow> nat" where
  "len s = length (elems s)"

definition cap :: "slice \<Rightarrow> nat" where
  "cap s = length (elems s) + length (spare s)"

definition backing :: "slice \<Rightarrow> byte list" where
  "backing s = elems s @ spare s"

definition nil_slice :: slice where
  "nil_slice = Slice [] []"

text \<open>\<^verbatim>\<open>make([]byte, n)\<close>: \<open>n\<close> zero bytes, capacity \<open>n\<close>.\<close>

definition make_slice :: "nat \<Rightarrow> slice" where
  "make_slice n = Slice (replicate n 0) []"

text \<open>\<^verbatim>\<open>s[i]\<close> and \<^verbatim>\<open>s[i] = v\<close> panic unless \<open>i < len s\<close>.\<close>

definition index :: "slice \<Rightarrow> nat \<Rightarrow> byte outcome" where
  "index s i = (if i < len s then Returns (elems s ! i) else Panics IndexOutOfRange)"

definition set_index :: "slice \<Rightarrow> nat \<Rightarrow> byte \<Rightarrow> slice outcome" where
  "set_index s i v =
     (if i < len s then Returns (Slice ((elems s)[i := v]) (spare s))
      else Panics IndexOutOfRange)"

text \<open>
  Slice expressions. \<^verbatim>\<open>s[lo:]\<close> has the upper bound \<^verbatim>\<open>len(s)\<close>, so it needs
  \<open>lo \<le> len s\<close>. With an explicit upper bound the limit is the capacity:
  \<^verbatim>\<open>s[lo:hi]\<close> needs \<open>lo \<le> hi \<le> cap s\<close> and may reach into the spare bytes.
\<close>

definition slice_from :: "slice \<Rightarrow> nat \<Rightarrow> slice outcome" where
  "slice_from s lo =
     (if lo \<le> len s then Returns (Slice (drop lo (elems s)) (spare s))
      else Panics SliceBoundsOutOfRange)"

definition slice_range :: "slice \<Rightarrow> nat \<Rightarrow> nat \<Rightarrow> slice outcome" where
  "slice_range s lo hi =
     (if lo \<le> hi \<and> hi \<le> cap s
      then Returns (Slice (drop lo (take hi (backing s))) (drop hi (backing s)))
      else Panics SliceBoundsOutOfRange)"

definition slice_to :: "slice \<Rightarrow> nat \<Rightarrow> slice outcome" where
  "slice_to s hi = slice_range s 0 hi"

text \<open>
  \<^verbatim>\<open>copy(dst, src)\<close> copies \<open>min (len dst) (len src)\<close> bytes to the front of \<open>dst\<close>
  and returns that count; the rest of \<open>dst\<close> and its spare bytes stay.
\<close>

definition go_copy :: "slice \<Rightarrow> slice \<Rightarrow> slice \<times> nat" where
  "go_copy dst src =
     (let n = min (len dst) (len src)
      in (Slice (take n (elems src) @ drop n (elems dst)) (spare dst), n))"

text \<open>
  A callee that is handed \<^verbatim>\<open>buffer[lo:]\<close> writes through to \<open>buffer\<close>.
  \<open>write_back buffer lo sub\<close> is \<open>buffer\<close> as its owner sees it once the window
  \<^verbatim>\<open>buffer[lo:]\<close> holds \<open>sub\<close>.
\<close>

definition write_back :: "slice \<Rightarrow> nat \<Rightarrow> slice \<Rightarrow> slice" where
  "write_back buffer lo sub = Slice (take lo (elems buffer) @ elems sub) (spare sub)"

text \<open>
  A value of type \<open>slice\<close> carries its own bytes, so two such values never share an
  array. Where a function writes through one slice argument and afterwards reads
  another, the result depends on whether the two overlap; such a function is modelled
  on a memory of bytes. A \<open>header\<close> is the slice as Go passes it: the address of its
  first byte, its length, and the room behind it (\<^verbatim>\<open>cap - len\<close>). \<open>deref\<close> reads
  the slice a header denotes in a memory.
\<close>

type_synonym memory = "nat \<Rightarrow> byte"

datatype header = Header (ptr: nat) (hlen: nat) (room: nat)

definition bytes_at :: "memory \<Rightarrow> nat \<Rightarrow> nat \<Rightarrow> byte list" where
  "bytes_at mem p n = map mem [p ..< p + n]"

definition deref :: "memory \<Rightarrow> header \<Rightarrow> slice" where
  "deref mem h = Slice (bytes_at mem (ptr h) (hlen h)) (bytes_at mem (ptr h + hlen h) (room h))"

text \<open>\<^verbatim>\<open>s[i]\<close> and \<^verbatim>\<open>s[i] = v\<close> on the memory.\<close>

definition load_index :: "memory \<Rightarrow> header \<Rightarrow> nat \<Rightarrow> byte outcome" where
  "load_index mem s i = (if i < hlen s then Returns (mem (ptr s + i)) else Panics IndexOutOfRange)"

definition store_index :: "memory \<Rightarrow> header \<Rightarrow> nat \<Rightarrow> byte \<Rightarrow> memory outcome" where
  "store_index mem s i v =
     (if i < hlen s then Returns (mem(ptr s + i := v)) else Panics IndexOutOfRange)"

text \<open>\<^verbatim>\<open>s[lo:]\<close> and \<^verbatim>\<open>s[lo:hi]\<close> on headers, with the bounds of \<open>slice_from\<close> and \<open>slice_range\<close>.\<close>

definition header_from :: "header \<Rightarrow> nat \<Rightarrow> header outcome" where
  "header_from s lo =
     (if lo \<le> hlen s then Returns (Header (ptr s + lo) (hlen s - lo) (room s))
      else Panics SliceBoundsOutOfRange)"

definition header_range :: "header \<Rightarrow> nat \<Rightarrow> nat \<Rightarrow> header outcome" where
  "header_range s lo hi =
     (if lo \<le> hi \<and> hi \<le> hlen s + room s
      then Returns (Header (ptr s + lo) (hi - lo) (hlen s + room s - hi))
      else Panics SliceBoundsOutOfRange)"

definition header_to :: "header \<Rightarrow> nat \<Rightarrow> header outcome" where
  "header_to s hi = header_range s 0 hi"

text \<open>
  \<^verbatim>\<open>copy(dst, src)\<close> on the memory: the first \<open>min (len dst) (len src)\<close> bytes of
  \<open>dst\<close> become the bytes \<open>src\<close> held before the call, also when the two overlap.
\<close>

definition mem_copy :: "memory \<Rightarrow> header \<Rightarrow> header \<Rightarrow> memory \<times> nat" where
  "mem_copy mem dst src =
     (let n = min (hlen dst) (hlen src)
      in ((\<lambda>a. if ptr dst \<le> a \<and> a < ptr dst + n then mem (ptr src + (a - ptr dst)) else mem a),
          n))"

section \<open>Helpers of package util and encoding\<close>

text \<open>
  Modelled from the spec: \<^verbatim>\<open>util.Unpack\<close> is imported by cemi.go and defined in
  another package. For a \<^verbatim>\<open>*uint8\<close> target the spec has it read one byte (``reads one
  length byte L'', ``Read one tag byte; fail if data is empty'') and count it as
  consumed. The result is the count, the target's new value and the error; on failure
  the target keeps its old value and the count is 0 (no caller in cemi.go reads the
  count of a failed call other than to return it).
\<close>

definition util_Unpack :: "slice \<Rightarrow> byte \<Rightarrow> nat \<times> byte \<times> error option" where
  "util_Unpack data output =
     (case elems data of
        [] \<Rightarrow> (0, output, Some ErrUnexpectedEOF)
      | b # _ \<Rightarrow> (1, b, None))"

section \<open>The additional info segment\<close>

type_synonym Info = slice

text \<open>\<^verbatim>\<open>func (info Info) Size() uint\<close>\<close>

definition Info_Size :: "Info \<Rightarrow> nat" where
  "Info_Size info = (if len info > 255 then 256 else 1 + len info)"

text \<open>
  \<^verbatim>\<open>func (info Info) Pack(buffer []byte)\<close>: it stores the length byte in \<open>buffer\<close>
  and then reads \<open>info\<close>, so it runs on the memory; the result is the memory after the
  call.
\<close>

definition Info_Pack :: "memory \<Rightarrow> header \<Rightarrow> header \<Rightarrow> memory outcome" where
  "Info_Pack mem info buffer =
     (case store_index mem buffer 0 (if hlen info > 255 then 255 else of_nat (hlen info)) of
        Panics p \<Rightarrow> Panics p
      | Returns mem1 \<Rightarrow>
          (case header_from buffer 1 of
             Panics p \<Rightarrow> Panics p
           | Returns dst \<Rightarrow>
               (case load_index mem1 buffer 0 of
                  Panics p \<Rightarrow> Panics p
                | Returns b0 \<Rightarrow>
                    (case header_to info (unat b0) of
                       Panics p \<Rightarrow> Panics p
                     | Returns src \<Rightarrow> Returns (fst (mem_copy mem1 dst src))))))"

text \<open>
  \<^verbatim>\<open>func (info *Info) Unpack(data []byte) (n uint, err error)\<close>: the result is the
  receiver after the call, \<open>n\<close> and \<open>err\<close>.
\<close>

definition Info_Unpack :: "Info \<Rightarrow> slice \<Rightarrow> (Info \<times> nat \<times> error option) outcome" where
  "Info_Unpack info data =
     (case util_Unpack data 0 of
        (n, length', err) \<Rightarrow>
          if err \<noteq> None then Returns (info, n, err)
          else if length' > 0 then
            (let buf = make_slice (unat length') in
             case slice_range data n (n + unat length') of
               Panics p \<Rightarrow> Panics p
             | Returns src \<Rightarrow>
                 (case go_copy buf src of
                    (buf', m) \<Rightarrow> Returns (buf', n + m, None)))
          else Returns (nil_slice, n, None))"

text \<open>
  An \<^verbatim>\<open>io.Writer\<close> is a sink with a state of its own: \<^verbatim>\<open>w.Write(p)\<close> takes the
  state and the bytes and gives the new state, the count written and the error.
\<close>

type_synonym 'w Writer = "'w \<Rightarrow> byte list \<Rightarrow> 'w \<times> nat \<times> error option"

text \<open>
  Modelled from the spec: \<^verbatim>\<open>encoding.WriteSome\<close> is imported by cemi.go and defined in
  another package. The spec has the stream path write its fields in order (``writes the
  length byte \<dots> followed by that many bytes'') and hand a failure of the sink to the
  caller as it is (``propagated verbatim from the underlying sink; the codec does not
  retry or buffer''). Each field is given as the bytes of its encoding; the result is
  the sink's state, the total count and the error.
\<close>

fun encoding_WriteSome :: "'w Writer \<Rightarrow> 'w \<Rightarrow> byte list list \<Rightarrow> 'w \<times> nat \<times> error option" where
  "encoding_WriteSome write w [] = (w, 0, None)"
| "encoding_WriteSome write w (d # ds) =
     (case write w d of
        (w', m, Some e) \<Rightarrow> (w', m, Some e)
      | (w', m, None) \<Rightarrow>
          (case encoding_WriteSome write w' ds of (w'', k, err) \<Rightarrow> (w'', m + k, err)))"

text \<open>
  \<^verbatim>\<open>func (info Info) WriteTo(w io.Writer) (int64, error)\<close>
\<close>

definition Info_WriteTo :: "'w Writer \<Rightarrow> Info \<Rightarrow> 'w \<Rightarrow> ('w \<times> nat \<times> error option) outcome" where
  "Info_WriteTo write info w =
     (let length' = (of_nat (len info) :: byte) in
      case slice_to info (unat length') of
        Panics p \<Rightarrow> Panics p
      | Returns data \<Rightarrow> Returns (encoding_WriteSome write w [[length'], elems data]))"

text \<open>An in-memory sink that appends what it is given and never fails.\<close>

definition buffer_Write :: "(byte list) Writer" where
  "buffer_Write w p = (w @ p, length p, None)"

section \<open>Message codes\<close>

type_synonym MessageCode = byte

definition LBusmonIndCode :: MessageCode where "LBusmonIndCode = 0x2B"
definition LDataReqCode :: MessageCode where "LDataReqCode = 0x11"
definition LDataIndCode :: MessageCode where "LDataIndCode = 0x29"
definition LDataConCode :: MessageCode where "LDataConCode = 0x2E"
definition LRawReqCode :: MessageCode where "LRawReqCode = 0x10"
definition LRawIndCode :: MessageCode where "LRawIndCode = 0x2D"
definition LRawConCode :: MessageCode where "LRawConCode = 0x2F"

text \<open>
  \<^verbatim>\<open>fmt.Sprintf("%#x", uint8(code))\<close>: the prefix \<^verbatim>\<open>0x\<close> and the value in lower-case
  hexadecimal digits without leading zeros. The standard library writes the digits from
  the least significant one while the rest is 16 or more, then the leading digit.
\<close>

definition hex_digit :: "nat \<Rightarrow> char" where
  "hex_digit d = ''0123456789abcdef'' ! d"

fun hex_digits :: "nat \<Rightarrow> string" where
  "hex_digits u = (if 16 \<le> u then hex_digits (u div 16) @ [hex_digit (u mod 16)] else [hex_digit u])"

definition Sprintf_hex :: "byte \<Rightarrow> string" where
  "Sprintf_hex b = ''0x'' @ hex_digits (unat b)"

text \<open>\<^verbatim>\<open>func (code MessageCode) String() string\<close>\<close>

definition MessageCode_String :: "MessageCode \<Rightarrow> string" where
  "MessageCode_String code =
     (if code = LBusmonIndCode then ''LBusmonInd''
      else if code = LDataReqCode then ''LDataReq''
      else if code = LDataIndCode then ''LDataInd''
      else if code = LDataConCode then ''LDataCon''
      else if code = LRawReqCode then ''LRawReq''
      else if code = LRawIndCode then ''LRawInd''
      else if code = LRawConCode then ''LRawCon''
      else Sprintf_hex code)"

text \<open>Reading a hexadecimal numeral back, to say what a rendering denotes.\<close>

definition hex_value_of_char :: "char \<Rightarrow> nat option" where
  "hex_value_of_char c =
     (let k = (of_char c :: nat)
      in if 48 \<le> k \<and> k \<le> 57 then Some (k - 48)
         else if 97 \<le> k \<and> k \<le> 102 then Some (k - 87)
         else None)"

fun parse_hex :: "nat \<Rightarrow> string \<Rightarrow> nat option" where
  "parse_hex acc [] = Some acc"
| "parse_hex acc (c # cs) =
     (case hex_value_of_char c of None \<Rightarrow> None | Some d \<Rightarrow> parse_hex (16 * acc + d) cs)"

definition registered_codes :: "MessageCode list" where
  "registered_codes =
     [LBusmonIndCode, LDataReqCode, LDataIndCode, LDataConCode, LRawReqCode, LRawIndCode, LRawConCode]"

section \<open>Message bodies\<close>

text \<open>\<^verbatim>\<open>type LBusmonInd []byte\<close> (lbusmon.go)\<close>

type_synonym LBusmonInd = slice

definition LBusmonInd_MessageCode :: "LBusmonInd \<Rightarrow> MessageCode" where
  "LBusmonInd_MessageCode lbm = LBusmonIndCode"

definition LBusmonInd_Size :: "LBusmonInd \<Rightarrow> nat" where
  "LBusmonInd_Size lbm = len lbm"

definition LBusmonInd_Pack :: "LBusmonInd \<Rightarrow> slice \<Rightarrow> slice outcome" where
  "LBusmonInd_Pack lbm buffer = Returns (fst (go_copy buffer lbm))"

text \<open>
  \<^verbatim>\<open>func (lbm *LBusmonInd) Unpack(data []byte) (n uint, err error)\<close>: the result is the
  receiver after the call, \<open>n\<close> and \<open>err\<close>.
\<close>

definition LBusmonInd_Unpack :: "LBusmonInd \<Rightarrow> slice \<Rightarrow> (LBusmonInd \<times> nat \<times> error option) outcome" where
  "LBusmonInd_Unpack lbm data =
     (let target = lbm;
          target = (if len target < len data then make_slice (len data) else target)
      in case go_copy target data of
           (target', n) \<Rightarrow> Returns (target', n, None))"

text \<open>\<^verbatim>\<open>type UnsupportedMessage struct { Code MessageCode; Data []byte }\<close>\<close>

record UnsupportedMessage =
  Code :: MessageCode
  Data :: slice

definition UnsupportedMessage_Size :: "UnsupportedMessage \<Rightarrow> nat" where
  "UnsupportedMessage_Size body = len (Data body)"

definition UnsupportedMessage_Pack :: "UnsupportedMessage \<Rightarrow> slice \<Rightarrow> slice outcome" where
  "UnsupportedMessage_Pack body buffer = Returns (fst (go_copy buffer (Data body)))"

definition UnsupportedMessage_MessageCode :: "UnsupportedMessage \<Rightarrow> MessageCode" where
  "UnsupportedMessage_MessageCode body = Code body"

definition UnsupportedMessage_Unpack ::
  "UnsupportedMessage \<Rightarrow> slice \<Rightarrow> (UnsupportedMessage \<times> nat \<times> error option) outcome" where
  "UnsupportedMessage_Unpack body data =
     (let body1 = (if len (Data body) < len data then body\<lparr>Data := make_slice (len data)\<rparr> else body)
      in case go_copy (Data body1) data of
           (d, n) \<Rightarrow> Returns (body1\<lparr>Data := d\<rparr>, n, None))"

section \<open>The frame codec\<close>

text \<open>
  The bodies \<^verbatim>\<open>LDataReq\<close>, \<^verbatim>\<open>LDataCon\<close>, \<^verbatim>\<open>LDataInd\<close>, \<^verbatim>\<open>LRawReq\<close>,
  \<^verbatim>\<open>LRawCon\<close> and \<^verbatim>\<open>LRawInd\<close> are declared in other files of the package; cemi.go
  builds their zero values and calls their methods through the \<^verbatim>\<open>Message\<close>
  interface. Their values are of a type parameter \<open>'b\<close> and their methods are the
  fields of \<open>Peers\<close>, indexed by the message code of the type:
  \<open>peer_Unpack ps c data\<close> is \<^verbatim>\<open>(&T{}).Unpack(data)\<close> for the type \<^verbatim>\<open>T\<close> with code
  \<open>c\<close> (the filled body, the count and the error), \<open>peer_Size\<close> and \<open>peer_Pack\<close> are
  \<^verbatim>\<open>Size()\<close> and \<^verbatim>\<open>Pack(buffer)\<close>.
\<close>

record 'b Peers =
  peer_Unpack :: "MessageCode \<Rightarrow> slice \<Rightarrow> ('b \<times> nat \<times> error option) outcome"
  peer_Size :: "MessageCode \<Rightarrow> 'b \<Rightarrow> nat"
  peer_Pack :: "MessageCode \<Rightarrow> 'b \<Rightarrow> slice \<Rightarrow> slice outcome"

text \<open>A value of the interface \<^verbatim>\<open>Message\<close>: one constructor for each implementing type.\<close>

datatype 'b Message =
    Body_LBusmonInd LBusmonInd
  | Body_LDataReq 'b
  | Body_LDataCon 'b
  | Body_LDataInd 'b
  | Body_LRawReq 'b
  | Body_LRawCon 'b
  | Body_LRawInd 'b
  | Body_UnsupportedMessage UnsupportedMessage

text \<open>The interface methods, dispatched on the dynamic type.\<close>

fun Message_MessageCode :: "'b Message \<Rightarrow> MessageCode" where
  "Message_MessageCode (Body_LBusmonInd lbm) = LBusmonInd_MessageCode lbm"
| "Message_MessageCode (Body_LDataReq b) = LDataReqCode"
| "Message_MessageCode (Body_LDataCon b) = LDataConCode"
| "Message_MessageCode (Body_LDataInd b) = LDataIndCode"
| "Message_MessageCode (Body_LRawReq b) = LRawReqCode"
| "Message_MessageCode (Body_LRawCon b) = LRawConCode"
| "Message_MessageCode (Body_LRawInd b) = LRawIndCode"
| "Message_MessageCode (Body_UnsupportedMessage body) = UnsupportedMessage_MessageCode body"

fun Message_Size :: "'b Peers \<Rightarrow> 'b Message \<Rightarrow> nat" where
  "Message_Size ps (Body_LBusmonInd lbm) = LBusmonInd_Size lbm"
| "Message_Size ps (Body_LDataReq b) = peer_Size ps LDataReqCode b"
| "Message_Size ps (Body_LDataCon b) = peer_Size ps LDataConCode b"
| "Message_Size ps (Body_LDataInd b) = peer_Size ps LDataIndCode b"
| "Message_Size ps (Body_LRawReq b) = peer_Size ps LRawReqCode b"
| "Message_Size ps (Body_LRawCon b) = peer_Size ps LRawConCode b"
| "Message_Size ps (Body_LRawInd b) = peer_Size ps LRawIndCode b"
| "Message_Size ps (Body_UnsupportedMessage body) = UnsupportedMessage_Size body"

fun Message_Pack :: "'b Peers \<Rightarrow> 'b Message \<Rightarrow> slice \<Rightarrow> slice outcome" where
  "Message_Pack ps (Body_LBusmonInd lbm) buffer = LBusmonInd_Pack lbm buffer"
| "Message_Pack ps (Body_LDataReq b) buffer = peer_Pack ps LDataReqCode b buffer"
| "Message_Pack ps (Body_LDataCon b) buffer = peer_Pack ps LDataConCode b buffer"
| "Message_Pack ps (Body_LDataInd b) buffer = peer_Pack ps LDataIndCode b buffer"
| "Message_Pack ps (Body_LRawReq b) buffer = peer_Pack ps LRawReqCode b buffer"
| "Message_Pack ps (Body_LRawCon b) buffer = peer_Pack ps LRawConCode b buffer"
| "Message_Pack ps (Body_LRawInd b) buffer = peer_Pack ps LRawIndCode b buffer"
| "Message_Pack ps (Body_UnsupportedMessage body) buffer = UnsupportedMessage_Pack body buffer"

text \<open>The result of a body's \<^verbatim>\<open>Unpack\<close>, seen as a \<^verbatim>\<open>messageUnpackable\<close>.\<close>

fun as_body :: "('a \<Rightarrow> 'b Message) \<Rightarrow> ('a \<times> nat \<times> error option) outcome \<Rightarrow>
    ('b Message \<times> nat \<times> error option) outcome" where
  "as_body C (Panics p) = Panics p"
| "as_body C (Returns (x, m, err)) = Returns (C x, m, err)"

text \<open>
  The switch of \<^verbatim>\<open>Unpack\<close> on the code, together with the call
  \<^verbatim>\<open>body.Unpack(data[n:])\<close> on the body it selects: a zero value of the registered
  type, or \<^verbatim>\<open>&UnsupportedMessage{Code: code}\<close>.
\<close>

definition body_Unpack ::
  "'b Peers \<Rightarrow> MessageCode \<Rightarrow> slice \<Rightarrow> ('b Message \<times> nat \<times> error option) outcome" where
  "body_Unpack ps code rest =
     (if code = LBusmonIndCode then as_body Body_LBusmonInd (LBusmonInd_Unpack nil_slice rest)
      else if code = LDataReqCode then as_body Body_LDataReq (peer_Unpack ps LDataReqCode rest)
      else if code = LDataConCode then as_body Body_LDataCon (peer_Unpack ps LDataConCode rest)
      else if code = LDataIndCode then as_body Body_LDataInd (peer_Unpack ps LDataIndCode rest)
      else if code = LRawReqCode then as_body Body_LRawReq (peer_Unpack ps LRawReqCode rest)
      else if code = LRawConCode then as_body Body_LRawCon (peer_Unpack ps LRawConCode rest)
      else if code = LRawIndCode then as_body Body_LRawInd (peer_Unpack ps LRawIndCode rest)
      else as_body Body_UnsupportedMessage
             (UnsupportedMessage_Unpack \<lparr>Code = code, Data = nil_slice\<rparr> rest))"

text \<open>
  \<^verbatim>\<open>func Unpack(data []byte, message *Message) (n uint, err error)\<close>: \<open>message\<close> is
  what the caller's variable holds before the call (\<open>None\<close> for a nil interface); the
  result is what it holds afterwards, \<open>n\<close> and \<open>err\<close>.
\<close>

definition Unpack ::
  "'b Peers \<Rightarrow> slice \<Rightarrow> 'b Message option \<Rightarrow> ('b Message option \<times> nat \<times> error option) outcome" where
  "Unpack ps data message =
     (case util_Unpack data 0 of
        (n, code, err) \<Rightarrow>
          if err \<noteq> None then Returns (message, n, err)
          else
            (case slice_from data n of
               Panics p \<Rightarrow> Panics p
             | Returns rest \<Rightarrow>
                 (case body_Unpack ps code rest of
                    Panics p \<Rightarrow> Panics p
                  | Returns (body, m, err) \<Rightarrow>
                      Returns (if err = None then Some body else message, n + m, err))))"

text \<open>\<^verbatim>\<open>func Size(message Message) uint\<close>\<close>

definition Size :: "'b Peers \<Rightarrow> 'b Message \<Rightarrow> nat" where
  "Size ps message = 1 + Message_Size ps message"

text \<open>
  Modelled from the spec: \<^verbatim>\<open>util.PackSome\<close> is imported by cemi.go and defined in
  another package. For a byte followed by a packable value the spec has it write the
  byte and hand the rest of the buffer to the value's own encoder (``writes
  \<^verbatim>\<open>message.tag()\<close> then delegates to \<^verbatim>\<open>message.encode(...)\<close> for the remainder'').
\<close>

definition util_PackSome :: "slice \<Rightarrow> byte \<Rightarrow> (slice \<Rightarrow> slice outcome) \<Rightarrow> slice outcome" where
  "util_PackSome buffer b pack =
     (case set_index buffer 0 b of
        Panics p \<Rightarrow> Panics p
      | Returns buffer1 \<Rightarrow>
          (case slice_from buffer1 1 of
             Panics p \<Rightarrow> Panics p
           | Returns sub \<Rightarrow>
               (case pack sub of
                  Panics p \<Rightarrow> Panics p
                | Returns sub' \<Rightarrow> Returns (write_back buffer1 1 sub'))))"

text \<open>
  \<^verbatim>\<open>func Pack(buffer []byte, message Message)\<close>: the result is the buffer after the call.
  The packers of the message bodies and \<open>Pack\<close> are functions on values: they describe
  the calls in which the message and the buffer share no array, as for a message that
  \<open>Unpack\<close> has just built.
\<close>

definition Pack :: "'b Peers \<Rightarrow> slice \<Rightarrow> 'b Message \<Rightarrow> slice outcome" where
  "Pack ps buffer message =
     util_PackSome buffer (Message_MessageCode message) (Message_Pack ps message)"

text \<open>
  A stand-in for the six peer bodies, to run the frame codec on concrete frames: each
  decoder reports a truncated input, each body is empty.
\<close>

definition failing_Peers :: "unit Peers" where
  "failing_Peers =
     \<lparr>peer_Unpack = (\<lambda>c data. Returns ((), 0, Some ErrUnexpectedEOF)),
      peer_Size = (\<lambda>c b. 0),
      peer_Pack = (\<lambda>c b buffer. Returns buffer)\<rparr>"

section \<open>Properties\<close>

lemmas slice_ops = len_def cap_def backing_def nil_slice_def make_slice_def index_def
  set_index_def slice_from_def slice_range_def slice_to_def go_copy_def write_back_def

subsection \<open>Closed forms of the operations\<close>

lemma go_copy_eq:
  "go_copy dst src =
     (Slice (take (min (len dst) (len src)) (elems src) @ drop (min (len dst) (len src)) (elems dst))
        (spare dst),
      min (len dst) (len src))"
  by (simp add: go_copy_def Let_def)

lemma slice_to_within:
  "k \<le> len s \<Longrightarrow> slice_to s k = Returns (Slice (take k (elems s)) (drop k (elems s) @ spare s))"
  by (simp add: slice_to_def slice_range_def cap_def len_def backing_def)

lemma length_bytes_at: "length (bytes_at mem p n) = n"
  by (simp add: bytes_at_def)

lemma nth_bytes_at: "i < n \<Longrightarrow> bytes_at mem p n ! i = mem (p + i)"
  by (simp add: bytes_at_def)

lemmas bytes_at_simps = length_bytes_at nth_bytes_at

lemma take_bytes_at: "take k (bytes_at mem p n) = bytes_at mem p (min k n)"
  by (rule nth_equalityI) (simp_all add: bytes_at_simps)

lemma drop_bytes_at: "drop k (bytes_at mem p n) = bytes_at mem (p + k) (n - k)"
  by (rule nth_equalityI) (simp_all add: bytes_at_simps add.assoc)

lemma len_deref: "len (deref mem h) = hlen h"
  by (simp add: len_def deref_def length_bytes_at)

lemma elems_deref: "elems (deref mem h) = bytes_at mem (ptr h) (hlen h)"
  by (simp add: deref_def)

lemma spare_deref: "spare (deref mem h) = bytes_at mem (ptr h + hlen h) (room h)"
  by (simp add: deref_def)

lemma index_deref:
  "index (deref mem h) i = (if i < hlen h then Returns (mem (ptr h + i)) else Panics IndexOutOfRange)"
  by (simp add: index_def len_deref elems_deref nth_bytes_at)

lemmas store_simps = length_bytes_at nth_bytes_at len_deref elems_deref spare_deref

lemma Info_Pack_result:
  assumes "Info_Size (deref mem info) \<le> hlen buffer"
  shows "Info_Pack mem info buffer =
           Returns (\<lambda>a. if a = ptr buffer then of_nat (min 255 (hlen info))
                        else if ptr buffer < a \<and> a \<le> ptr buffer + min 255 (hlen info)
                             then (mem(ptr buffer := of_nat (min 255 (hlen info))))
                                    (ptr info + (a - (ptr buffer + 1)))
                             else mem a)"
proof -
  note store_simps [simp]
  let ?k = "min 255 (hlen info)"
  let ?v = "of_nat ?k :: byte"
  have k: "unat ?v = ?k"
    by (simp add: unat_of_nat min_def)
  have b0: "(if 255 < hlen info then 255 else of_nat (hlen info)) = ?v"
    by (simp add: min_def)
  have le: "?k + 1 \<le> hlen buffer"
    using assms by (auto simp: Info_Size_def split: if_splits)
  have s1: "store_index mem buffer 0 ?v = Returns (mem(ptr buffer := ?v))"
    using le by (simp add: store_index_def)
  have s2: "header_from buffer 1 = Returns (Header (ptr buffer + 1) (hlen buffer - 1) (room buffer))"
    using le by (simp add: header_from_def)
  have s3: "load_index (mem(ptr buffer := ?v)) buffer 0 = Returns ?v"
    using le by (simp add: load_index_def)
  have s4: "header_to info ?k = Returns (Header (ptr info) ?k (hlen info + room info - ?k))"
    by (simp add: header_to_def header_range_def)
  have n: "min (hlen buffer - 1) ?k = ?k" using le by simp
  have s5: "fst (mem_copy (mem(ptr buffer := ?v)) (Header (ptr buffer + 1) (hlen buffer - 1) (room buffer))
                   (Header (ptr info) ?k (hlen info + room info - ?k))) =
            (\<lambda>a. if a = ptr buffer then ?v
                  else if ptr buffer < a \<and> a \<le> ptr buffer + ?k
                       then (mem(ptr buffer := ?v)) (ptr info + (a - (ptr buffer + 1)))
                       else mem a)"
    unfolding mem_copy_def Let_def fst_conv header.sel n
    by (rule ext) auto
  show ?thesis
    unfolding Info_Pack_def b0
    by (simp only: s1 s2 s3 s4 s5 k outcome.case)
qed


lemmas code_defs = LBusmonIndCode_def LDataReqCode_def LDataIndCode_def LDataConCode_def
  LRawReqCode_def LRawIndCode_def LRawConCode_def

lemma LBusmonInd_Unpack_fresh:
  "LBusmonInd_Unpack nil_slice rest = Returns (Slice (elems rest) [], len rest, None)"
  by (cases "elems rest")
     (simp_all add: LBusmonInd_Unpack_def nil_slice_def make_slice_def go_copy_eq len_def)

lemma UnsupportedMessage_Unpack_fresh:
  "UnsupportedMessage_Unpack \<lparr>Code = c, Data = nil_slice\<rparr> rest =
     Returns (\<lparr>Code = c, Data = Slice (elems rest) []\<rparr>, len rest, None)"
  by (cases "elems rest")
     (simp_all add: UnsupportedMessage_Unpack_def nil_slice_def make_slice_def go_copy_eq len_def)

lemma Unpack_empty:
  "elems data = [] \<Longrightarrow> Unpack ps data message = Returns (message, 0, Some ErrUnexpectedEOF)"
  by (simp add: Unpack_def util_Unpack_def)

lemma Unpack_cons:
  "elems data = code # payload \<Longrightarrow>
   Unpack ps data message =
     (case body_Unpack ps code (Slice payload (spare data)) of
        Panics p \<Rightarrow> Panics p
      | Returns (body, m, err) \<Rightarrow>
          Returns (if err = None then Some body else message, 1 + m, err))"
  by (simp add: Unpack_def util_Unpack_def slice_from_def len_def split: outcome.split)

lemma body_Unpack_LBusmonInd:
  "body_Unpack ps LBusmonIndCode rest =
     Returns (Body_LBusmonInd (Slice (elems rest) []), len rest, None)"
  by (simp add: body_Unpack_def LBusmonInd_Unpack_fresh)

lemma body_Unpack_unregistered:
  "code \<notin> set registered_codes \<Longrightarrow>
   body_Unpack ps code rest =
     Returns (Body_UnsupportedMessage \<lparr>Code = code, Data = Slice (elems rest) []\<rparr>, len rest, None)"
  by (simp add: body_Unpack_def registered_codes_def UnsupportedMessage_Unpack_fresh)

lemma Pack_cons:
  "elems buffer = b # bs \<Longrightarrow>
   Pack ps buffer message =
     (case Message_Pack ps message (Slice bs (spare buffer)) of
        Panics p \<Rightarrow> Panics p
      | Returns sub \<Rightarrow> Returns (Slice (Message_MessageCode message # elems sub) (spare sub)))"
  by (simp add: Pack_def util_PackSome_def set_index_def slice_from_def len_def write_back_def
      split: outcome.split)

lemma go_copy_exact:
  "length bs = len src \<Longrightarrow> fst (go_copy (Slice bs sp) src) = Slice (elems src) sp"
  by (simp add: go_copy_eq len_def)

lemma hex_value_of_hex_digit: "d < 16 \<Longrightarrow> hex_value_of_char (hex_digit d) = Some d"
proof -
  assume "d < 16"
  then have "d = 0 \<or> d = 1 \<or> d = 2 \<or> d = 3 \<or> d = 4 \<or> d = 5 \<or> d = 6 \<or> d = 7 \<or>
      d = 8 \<or> d = 9 \<or> d = 10 \<or> d = 11 \<or> d = 12 \<or> d = 13 \<or> d = 14 \<or> d = 15"
    by arith
  then show ?thesis
    by (auto simp: hex_digit_def hex_value_of_char_def Let_def)
qed

lemma parse_hex_append:
  "parse_hex acc (xs @ ys) =
     (case parse_hex acc xs of None \<Rightarrow> None | Some a \<Rightarrow> parse_hex a ys)"
  by (induction xs arbitrary: acc) (auto split: option.splits)

lemma parse_hex_hex_digits: "parse_hex 0 (hex_digits n) = Some n"
proof (induction n rule: hex_digits.induct)
  case (1 u)
  show ?case
  proof (cases "16 \<le> u")
    case True
    have "hex_digits u = hex_digits (u div 16) @ [hex_digit (u mod 16)]"
      using True by (subst hex_digits.simps) simp
    then show ?thesis
      using 1 True by (simp add: parse_hex_append hex_value_of_hex_digit del: hex_digits.simps)
  next
    case False
    then have "hex_digits u = [hex_digit u]" by (subst hex_digits.simps) simp
    then show ?thesis using False by (simp add: hex_value_of_hex_digit del: hex_digits.simps)
  qed
qed

subsection \<open>Truncated additional info\<close>

text \<open>
  When the length byte \<open>L\<close> announces more bytes than \<open>data\<close> holds, \<open>Info_Unpack\<close>
  has no branch that returns an error: the slice expression \<^verbatim>\<open>data[n:n+uint(length)]\<close>
  is checked against the capacity only. It panics when the capacity is short as well,
  and otherwise reads the bytes that lie behind the end of \<open>data\<close>.
\<close>

lemma Info_Unpack_truncated:
  assumes "elems data = L # rest" and "len data < 1 + unat L"
  shows "Info_Unpack info data =
          (if cap data < 1 + unat L then Panics SliceBoundsOutOfRange
           else Returns (Slice (take (unat L) (rest @ spare data)) [], 1 + unat L, None))"
proof -
  have L: "L \<noteq> 0" using assms by (auto simp: len_def)
  then have "0 < L" by (simp add: word_greater_zero_iff)
  show ?thesis using assms L \<open>0 < L\<close>
    by (auto simp: Info_Unpack_def util_Unpack_def slice_ops Let_def min_def)
qed

lemma Info_Unpack_reads_past_end:
  "Info_Unpack info (Slice [2, 1] [7]) = Returns (Slice [1, 7] [], 3, None)"
  by (simp add: Info_Unpack_def util_Unpack_def slice_ops)

text \<open>
  Claim C1 asks that \<open>Info_Unpack\<close> return an error when fewer than \<open>1 + L\<close> bytes are
  available. On the two-byte input \<open>[2, 1]\<close> (length byte 2, one byte of data, no spare
  capacity) it does not return at all: it panics with a slice bound out of range.
\<close>

theorem Info_Unpack_truncated_panics:
  "Info_Unpack info (Slice [2, 1] []) = Panics SliceBoundsOutOfRange"
  by (simp add: Info_Unpack_def util_Unpack_def slice_ops)

subsection \<open>Reuse of a monitor payload\<close>

text \<open>
  \<open>LBusmonInd_Unpack\<close> allocates only when the receiver is shorter than the input.
  Otherwise it overwrites the front of the receiver and keeps its length, so the value
  left behind has the length of the longer of the two.
\<close>

lemma LBusmonInd_Unpack_closed_form:
  "LBusmonInd_Unpack lbm data =
     Returns (if len lbm < len data then Slice (elems data) []
              else Slice (elems data @ drop (len data) (elems lbm)) (spare lbm),
              len data, None)"
  by (simp add: LBusmonInd_Unpack_def make_slice_def go_copy_eq len_def)

lemma LBusmonInd_Unpack_length:
  "\<exists>lbm'. LBusmonInd_Unpack lbm data = Returns (lbm', len data, None) \<and>
          len lbm' = max (len lbm) (len data)"
  by (auto simp: LBusmonInd_Unpack_closed_form len_def)

text \<open>
  Claim C3 asks that \<open>LBusmonInd_Unpack\<close> leave a receiver whose length is
  \<open>len data\<close>. A receiver that already holds three bytes keeps its length when one byte
  is decoded into it: the count returned is 1, the value has length 3 and its last two
  bytes are those of the earlier decode.
\<close>

theorem LBusmonInd_Unpack_keeps_stale_bytes:
  "LBusmonInd_Unpack (Slice [1, 2, 3] []) (Slice [9] []) = Returns (Slice [9, 2, 3] [], 1, None)"
  by (simp add: LBusmonInd_Unpack_def slice_ops)

subsection \<open>Additional info longer than 255 bytes\<close>

text \<open>
  When the info and the buffer share memory, the length byte that \<open>Info_Pack\<close> stores
  first can land in the info, and the copy then takes it along: with both slices on
  the array \<open>{5, 6, 7, 8}\<close>, the info its first two bytes, the buffer ends as
  \<open>{2, 2, 6, 8}\<close>.
\<close>

lemma Info_Pack_overlap:
  "\<exists>mem'. Info_Pack (\<lambda>a. [5, 6, 7, 8] ! a) (Header 0 2 2) (Header 0 4 0) = Returns mem' \<and>
          deref mem' (Header 0 4 0) = Slice [2, 2, 6, 8] []"
proof -
  note store_simps [simp]
  have h: "Info_Size (deref (\<lambda>a. [5, 6, 7, 8] ! a) (Header 0 2 2)) \<le> hlen (Header 0 4 0)"
    by (simp add: Info_Size_def)
  show ?thesis
    unfolding Info_Pack_result [OF h]
    by (simp add: deref_def bytes_at_def upt_rec)
qed



subsection \<open>The stream path wraps the length\<close>

text \<open>
  Claim C5. \<open>Info_WriteTo\<close> hands the sink the length byte \<open>of_nat (len info)\<close>,
  whose value is \<open>len info mod 256\<close>, and then exactly that many bytes from the front
  of the info, whatever the sink; an appending sink therefore grows by these
  \<open>1 + len info mod 256\<close> bytes. No slice bound is violated, whatever the length.
\<close>

theorem Info_WriteTo_wraps:
  "Info_WriteTo write info w =
     Returns (encoding_WriteSome write w
                [[of_nat (len info)], take (len info mod 256) (elems info)]) \<and>
   Info_WriteTo buffer_Write info out =
     Returns (out @ [of_nat (len info)] @ take (len info mod 256) (elems info),
              1 + len info mod 256, None) \<and>
   unat (of_nat (len info) :: byte) = len info mod 256"
proof -
  have le: "len info mod 256 \<le> len info" by simp
  have any: "Info_WriteTo wr info s =
      Returns (encoding_WriteSome wr s [[of_nat (len info)], take (len info mod 256) (elems info)])"
    for wr :: "'w Writer" and s
    by (simp add: Info_WriteTo_def Let_def unat_of_nat slice_to_within [OF le])
  have "encoding_WriteSome buffer_Write out
          [[of_nat (len info)], take (len info mod 256) (elems info)] =
        (out @ [of_nat (len info)] @ take (len info mod 256) (elems info),
         1 + len info mod 256, None)"
    by (simp add: buffer_Write_def len_def)
  then show ?thesis
    using any [of "write" w] any [of buffer_Write out] by (simp add: unat_of_nat)
qed

subsection \<open>What packing an info leaves alone\<close>

text \<open>
  Claim C10. On a buffer of at least \<open>Info_Size info\<close> bytes \<open>Info_Pack\<close> returns,
  the buffer keeps its length and capacity, every byte of it at an index from
  \<open>min 255 (len info) + 1\<close> on is the byte that was there before, and so are its spare
  bytes; indeed every byte of the memory outside the first \<open>min 255 (len info) + 1\<close>
  bytes of the buffer is unchanged, whether or not the info overlaps the buffer.
\<close>

theorem Info_Pack_frame:
  assumes "Info_Size (deref mem info) \<le> len (deref mem buffer)"
  shows "\<exists>mem'. Info_Pack mem info buffer = Returns mem' \<and>
           len (deref mem' buffer) = len (deref mem buffer) \<and>
           cap (deref mem' buffer) = cap (deref mem buffer) \<and>
           spare (deref mem' buffer) = spare (deref mem buffer) \<and>
           (\<forall>i. min 255 (len (deref mem info)) + 1 \<le> i \<and> i < len (deref mem buffer) \<longrightarrow>
                index (deref mem' buffer) i = index (deref mem buffer) i) \<and>
           (\<forall>a. a < ptr buffer \<or> ptr buffer + min 255 (len (deref mem info)) + 1 \<le> a \<longrightarrow>
                mem' a = mem a)"
proof -
  note store_simps [simp]
  let ?k = "min 255 (hlen info)"
  let ?mem' = "\<lambda>a. if a = ptr buffer then of_nat ?k
                   else if ptr buffer < a \<and> a \<le> ptr buffer + ?k
                        then (mem(ptr buffer := of_nat ?k)) (ptr info + (a - (ptr buffer + 1)))
                        else mem a"
  have pack: "Info_Pack mem info buffer = Returns ?mem'"
    using Info_Pack_result [of mem info buffer] assms by simp
  have kle: "?k + 1 \<le> hlen buffer"
    using assms by (auto simp: Info_Size_def split: if_splits)
  have outside: "?mem' a = mem a" if "a < ptr buffer \<or> ptr buffer + ?k + 1 \<le> a" for a
    using that by auto
  have sp: "bytes_at ?mem' (ptr buffer + hlen buffer) (room buffer) =
            bytes_at mem (ptr buffer + hlen buffer) (room buffer)"
  proof (rule nth_equalityI)
    fix i assume "i < length (bytes_at ?mem' (ptr buffer + hlen buffer) (room buffer))"
    then have "i < room buffer" by simp
    moreover have "?mem' (ptr buffer + hlen buffer + i) = mem (ptr buffer + hlen buffer + i)"
      using kle by (intro outside) simp
    ultimately show "bytes_at ?mem' (ptr buffer + hlen buffer) (room buffer) ! i =
                     bytes_at mem (ptr buffer + hlen buffer) (room buffer) ! i"
      by simp
  qed simp
  have ix: "index (deref ?mem' buffer) i = index (deref mem buffer) i"
    if "?k + 1 \<le> i" "i < hlen buffer" for i
  proof -
    have "?mem' (ptr buffer + i) = mem (ptr buffer + i)"
      using that(1) by (intro outside) simp
    then show ?thesis using that(2) by (simp add: index_deref)
  qed
  have "cap (deref ?mem' buffer) = cap (deref mem buffer)"
    by (simp add: cap_def)
  moreover have "spare (deref ?mem' buffer) = spare (deref mem buffer)"
    using sp by simp
  ultimately show ?thesis
    using pack ix outside by (intro exI [of _ ?mem']) simp
qed

theorem Info_Pack_frame_witness:
  "Info_Size (deref (\<lambda>a. if a = 0 then 1 else if a = 1 then 2 else if a = 7 then 7 else 9) (Header 0 2 0))
     \<le> len (deref (\<lambda>a. if a = 0 then 1 else if a = 1 then 2 else if a = 7 then 7 else 9) (Header 2 5 1)) \<and>
   (\<exists>mem'. Info_Pack (\<lambda>a. if a = 0 then 1 else if a = 1 then 2 else if a = 7 then 7 else 9)
              (Header 0 2 0) (Header 2 5 1) = Returns mem' \<and>
      len (deref mem' (Header 2 5 1)) = 5 \<and>
      spare (deref mem' (Header 2 5 1)) = [7] \<and>
      index (deref mem' (Header 2 5 1)) 3 = Returns 9 \<and>
      index (deref mem' (Header 2 5 1)) 4 = Returns 9 \<and>
      mem' 0 = 1 \<and> mem' 1 = 2)"
proof -
  note store_simps [simp]
  let ?M = "\<lambda>a. if a = 0 then 1 else if a = 1 then 2 else if a = 7 then 7 else (9 :: byte)"
  let ?I = "Header 0 2 0" and ?B = "Header 2 5 1"
  have h: "Info_Size (deref ?M ?I) \<le> len (deref ?M ?B)"
    by (simp add: Info_Size_def)
  from Info_Pack_frame [OF h] obtain mem' where
    b: "Info_Pack ?M ?I ?B = Returns mem'"
      "len (deref mem' ?B) = len (deref ?M ?B)"
      "spare (deref mem' ?B) = spare (deref ?M ?B)"
      "\<forall>i. min 255 (len (deref ?M ?I)) + 1 \<le> i \<and> i < len (deref ?M ?B) \<longrightarrow>
          index (deref mem' ?B) i = index (deref ?M ?B) i"
      "\<forall>a. a < ptr ?B \<or> ptr ?B + min 255 (len (deref ?M ?I)) + 1 \<le> a \<longrightarrow> mem' a = ?M a"
    by blast
  have i3: "index (deref mem' ?B) 3 = index (deref ?M ?B) 3"
    using b(4) by simp
  have i4: "index (deref mem' ?B) 4 = index (deref ?M ?B) 4"
    using b(4) by simp
  have v3: "index (deref ?M ?B) 3 = Returns 9" and v4: "index (deref ?M ?B) 4 = Returns 9"
    by (simp_all add: index_deref)
  have sp: "spare (deref ?M ?B) = [7]"
    by (simp add: bytes_at_def)
  have m0: "mem' 0 = 1"
    using spec [OF b(5), of 0] by simp
  have m1: "mem' 1 = 2"
    using spec [OF b(5), of 1] by simp
  show ?thesis
    using h b(1,2) b(3) sp i3 i4 v3 v4 m0 m1 by simp
qed

subsection \<open>Frames with an unregistered code\<close>

text \<open>
  Claim C2. A frame of at least one byte whose first byte is none of the seven
  registered codes decodes, whatever the caller's variable held, to an
  \<open>UnsupportedMessage\<close> with that byte as \<open>Code\<close> and the remaining bytes as \<open>Data\<close>;
  the count is the length of the frame. \<open>Pack\<close> of that message into a buffer of
  \<open>Size\<close> bytes gives back the bytes of the frame.
\<close>

theorem Unpack_unsupported_fidelity:
  assumes "elems data = code # payload"
      and "code \<notin> set registered_codes"
      and "len buffer = Size ps (Body_UnsupportedMessage \<lparr>Code = code, Data = Slice payload []\<rparr>)"
  shows "Unpack ps data message =
           Returns (Some (Body_UnsupportedMessage \<lparr>Code = code, Data = Slice payload []\<rparr>),
                    len data, None) \<and>
         (\<exists>buffer'. Pack ps buffer (Body_UnsupportedMessage \<lparr>Code = code, Data = Slice payload []\<rparr>)
                       = Returns buffer' \<and> elems buffer' = elems data)"
proof -
  have dec: "Unpack ps data message =
           Returns (Some (Body_UnsupportedMessage \<lparr>Code = code, Data = Slice payload []\<rparr>),
                    len data, None)"
    using assms(1) body_Unpack_unregistered [OF assms(2), of ps "Slice payload (spare data)"]
    by (simp add: Unpack_cons len_def)
  have lb: "length (elems buffer) = Suc (length payload)"
    using assms(3) by (simp add: Size_def UnsupportedMessage_Size_def len_def)
  then obtain b bs where buf: "elems buffer = b # bs" and bs: "length bs = length payload"
    by (cases "elems buffer") auto
  have "Pack ps buffer (Body_UnsupportedMessage \<lparr>Code = code, Data = Slice payload []\<rparr>)
          = Returns (Slice (code # payload) (spare buffer))"
    using bs
    by (simp add: Pack_cons [OF buf] UnsupportedMessage_Pack_def UnsupportedMessage_MessageCode_def
        go_copy_exact len_def)
  with dec assms(1) show ?thesis by simp
qed

theorem Unpack_unsupported_fidelity_witness:
  "elems (Slice [0x13, 1, 2] []) = 0x13 # [1, 2] \<and>
   0x13 \<notin> set registered_codes \<and>
   len (Slice [0, 0, 0] []) =
     Size failing_Peers (Body_UnsupportedMessage \<lparr>Code = 0x13, Data = Slice [1, 2] []\<rparr>) \<and>
   Unpack failing_Peers (Slice [0x13, 1, 2] []) None =
     Returns (Some (Body_UnsupportedMessage \<lparr>Code = 0x13, Data = Slice [1, 2] []\<rparr>), 3, None) \<and>
   (\<exists>buffer'. Pack failing_Peers (Slice [0, 0, 0] [])
                  (Body_UnsupportedMessage \<lparr>Code = 0x13, Data = Slice [1, 2] []\<rparr>) = Returns buffer' \<and>
               elems buffer' = [0x13, 1, 2])"
proof -
  have h1: "elems (Slice [0x13, 1, 2] []) = 0x13 # [1, 2]" by simp
  have h2: "(0x13 :: MessageCode) \<notin> set registered_codes"
    by (simp add: registered_codes_def code_defs)
  have h3: "len (Slice [0, 0, 0] []) =
     Size failing_Peers (Body_UnsupportedMessage \<lparr>Code = 0x13, Data = Slice [1, 2] []\<rparr>)"
    by (simp add: Size_def UnsupportedMessage_Size_def len_def)
  show ?thesis
    using h1 h2 h3 Unpack_unsupported_fidelity [OF h1 h2 h3, of None]
    by (simp add: len_def)
qed

subsection \<open>Errors of a body's decoder\<close>

text \<open>
  Claim C6. \<open>body_Unpack ps code rest\<close> is the decode of the body that the code byte
  selects. When it returns an error, \<open>Unpack\<close> returns that error and the caller's
  variable keeps the value it had; when it returns no error, the variable holds the
  decoded body. In both cases the count is one more than the body's.
\<close>

theorem Unpack_outcome_of_body:
  assumes "elems data = code # payload"
  shows "(\<forall>body m e. body_Unpack ps code (Slice payload (spare data)) = Returns (body, m, Some e) \<longrightarrow>
            Unpack ps data message = Returns (message, 1 + m, Some e)) \<and>
         (\<forall>body m. body_Unpack ps code (Slice payload (spare data)) = Returns (body, m, None) \<longrightarrow>
            Unpack ps data message = Returns (Some body, 1 + m, None))"
  by (simp add: Unpack_cons [OF assms])

theorem Unpack_outcome_of_body_witness:
  "elems (Slice [0x11, 7] []) = 0x11 # [7] \<and>
   body_Unpack failing_Peers 0x11 (Slice [7] []) = Returns (Body_LDataReq (), 0, Some ErrUnexpectedEOF) \<and>
   Unpack failing_Peers (Slice [0x11, 7] []) (Some (Body_LBusmonInd (Slice [5] []))) =
     Returns (Some (Body_LBusmonInd (Slice [5] [])), 1, Some ErrUnexpectedEOF) \<and>
   elems (Slice [0x2B, 7] []) = 0x2B # [7] \<and>
   body_Unpack failing_Peers 0x2B (Slice [7] []) = Returns (Body_LBusmonInd (Slice [7] []), 1, None) \<and>
   Unpack failing_Peers (Slice [0x2B, 7] []) (Some (Body_LBusmonInd (Slice [5] []))) =
     Returns (Some (Body_LBusmonInd (Slice [7] [])), 2, None)"
proof -
  have h1: "elems (Slice [0x11, 7] []) = 0x11 # [7]" by simp
  have b1: "body_Unpack failing_Peers 0x11 (Slice [7] []) =
              Returns (Body_LDataReq (), 0, Some ErrUnexpectedEOF)"
    by (simp add: body_Unpack_def failing_Peers_def code_defs)
  have h2: "elems (Slice [0x2B, 7] []) = 0x2B # [7]" by simp
  have b2: "body_Unpack failing_Peers 0x2B (Slice [7] []) =
              Returns (Body_LBusmonInd (Slice [7] []), 1, None)"
    using body_Unpack_LBusmonInd [of failing_Peers "Slice [7] []"]
    by (simp add: LBusmonIndCode_def len_def)
  show ?thesis
    using h1 b1 h2 b2
      Unpack_outcome_of_body [OF h1, of failing_Peers "Some (Body_LBusmonInd (Slice [5] []))"]
      Unpack_outcome_of_body [OF h2, of failing_Peers "Some (Body_LBusmonInd (Slice [5] []))"]
    by simp
qed

text \<open>
  The same for one of the six bodies declared elsewhere, stated on its own decoder.
\<close>

lemma Unpack_peer_error:
  fixes ps :: "'b Peers" and C :: "'b \<Rightarrow> 'b Message"
  assumes "elems data = c # payload"
      and "(C, c) \<in> set [(Body_LDataReq, LDataReqCode), (Body_LDataCon, LDataConCode),
              (Body_LDataInd, LDataIndCode), (Body_LRawReq, LRawReqCode),
              (Body_LRawCon, LRawConCode), (Body_LRawInd, LRawIndCode)]"
      and "peer_Unpack ps c (Slice payload (spare data)) = Returns (b, m, Some e)"
  shows "Unpack ps data message = Returns (message, 1 + m, Some e)"
proof -
  have "body_Unpack ps c (Slice payload (spare data)) = Returns (C b, m, Some e)"
    using assms(2,3) by (auto simp: body_Unpack_def code_defs)
  then show ?thesis by (simp add: Unpack_cons [OF assms(1)])
qed

subsection \<open>Round trip of the monitor payload\<close>

text \<open>
  For an \<open>LBusmonInd\<close> and a buffer of \<open>Size\<close> bytes that share no memory, \<open>Pack\<close>
  followed by \<open>Unpack\<close> of that buffer gives an \<open>LBusmonInd\<close> with the same message
  code and the same bytes, and consumes the whole buffer.
\<close>

lemma LBusmonInd_round_trip:
  assumes "len buffer = Size ps (Body_LBusmonInd lbm)"
  shows "\<exists>buffer'. Pack ps buffer (Body_LBusmonInd lbm) = Returns buffer' \<and>
           len buffer' = Size ps (Body_LBusmonInd lbm) \<and>
           (\<exists>lbm'. Unpack ps buffer' message =
                     Returns (Some (Body_LBusmonInd lbm'), Size ps (Body_LBusmonInd lbm), None) \<and>
                   Message_MessageCode (Body_LBusmonInd lbm' :: 'b Message) =
                     Message_MessageCode (Body_LBusmonInd lbm :: 'b Message) \<and>
                   elems lbm' = elems lbm)"
proof -
  have lb: "length (elems buffer) = Suc (len lbm)"
    using assms by (simp add: Size_def LBusmonInd_Size_def len_def)
  then obtain b bs where buf: "elems buffer = b # bs" and bs: "length bs = len lbm"
    by (cases "elems buffer") auto
  let ?out = "Slice (LBusmonIndCode # elems lbm) (spare buffer)"
  have pack: "Pack ps buffer (Body_LBusmonInd lbm) = Returns ?out"
    using bs
    by (simp add: Pack_cons [OF buf] LBusmonInd_Pack_def LBusmonInd_MessageCode_def go_copy_exact)
  have unpack: "Unpack ps ?out message =
      Returns (Some (Body_LBusmonInd (Slice (elems lbm) [])), Size ps (Body_LBusmonInd lbm), None)"
    by (simp add: Unpack_cons [of ?out LBusmonIndCode "elems lbm"] body_Unpack_LBusmonInd
        Size_def LBusmonInd_Size_def len_def)
  have "len ?out = Size ps (Body_LBusmonInd lbm)"
    by (simp add: Size_def LBusmonInd_Size_def len_def)
  with pack unpack show ?thesis by (simp add: LBusmonInd_MessageCode_def)
qed

text \<open>
  For the six bodies declared elsewhere the frame codec adds nothing of its own: when
  the body's \<open>Pack\<close> and \<open>Unpack\<close> are inverse on buffers of the body's size, so are
  the frame's.
\<close>

lemma peer_round_trip:
  assumes variant: "(C, c) \<in> set [(Body_LDataReq, LDataReqCode), (Body_LDataCon, LDataConCode),
              (Body_LDataInd, LDataIndCode), (Body_LRawReq, LRawReqCode),
              (Body_LRawCon, LRawConCode), (Body_LRawInd, LRawIndCode)]"
      and size: "len buffer = Size ps (C b)"
      and codec: "\<And>sub. len sub = peer_Size ps c b \<Longrightarrow>
              \<exists>sub'. peer_Pack ps c b sub = Returns sub' \<and> len sub' = len sub \<and>
                     peer_Unpack ps c sub' = Returns (b, peer_Size ps c b, None)"
  shows "\<exists>buffer'. Pack ps buffer (C b) = Returns buffer' \<and> len buffer' = len buffer \<and>
           Unpack ps buffer' message = Returns (Some (C b), Size ps (C b), None)"
proof -
  have sz: "Message_Size ps (C b) = peer_Size ps c b" and mc: "Message_MessageCode (C b) = c"
    and mp: "Message_Pack ps (C b) = peer_Pack ps c b"
    and bu: "\<And>rest. body_Unpack ps c rest = as_body C (peer_Unpack ps c rest)"
    using variant by (auto simp: body_Unpack_def code_defs)
  have "length (elems buffer) = Suc (peer_Size ps c b)"
    using size sz by (simp add: Size_def len_def)
  then obtain x xs where buf: "elems buffer = x # xs" and xs: "length xs = peer_Size ps c b"
    by (cases "elems buffer") auto
  from codec [of "Slice xs (spare buffer)"] xs obtain sub' where
    p: "peer_Pack ps c b (Slice xs (spare buffer)) = Returns sub'" and
    l: "len sub' = length xs" and
    u: "peer_Unpack ps c sub' = Returns (b, peer_Size ps c b, None)"
    by (auto simp: len_def)
  let ?out = "Slice (c # elems sub') (spare sub')"
  have pack: "Pack ps buffer (C b) = Returns ?out"
    by (simp add: Pack_cons [OF buf] mp p mc)
  have "Unpack ps ?out message = Returns (Some (C b), Size ps (C b), None)"
    by (simp add: Unpack_cons [of ?out c "elems sub'"] bu u Size_def sz)
  moreover have "len ?out = len buffer" using l buf by (simp add: len_def)
  ultimately show ?thesis using pack by simp
qed

subsection \<open>Decoders without an error path\<close>

text \<open>
  Claim C9. \<open>UnsupportedMessage_Unpack\<close> and \<open>LBusmonInd_Unpack\<close> return without an
  error for every receiver and every input, the empty one included. Hence \<open>Unpack\<close> of a
  frame of at least one byte whose code is \<open>LBusmonIndCode\<close> or unregistered returns
  a message and no error, and consumes the frame.
\<close>

theorem Unpack_never_fails_on_raw_bodies:
  "(\<exists>body' n. UnsupportedMessage_Unpack body data = Returns (body', n, None)) \<and>
   (\<exists>lbm' n. LBusmonInd_Unpack lbm data = Returns (lbm', n, None)) \<and>
   (\<forall>code payload. elems data = code # payload \<and>
        (code = LBusmonIndCode \<or> code \<notin> set registered_codes) \<longrightarrow>
        (\<exists>m. Unpack ps data message = Returns (Some m, len data, None)))"
proof -
  have a: "\<exists>body' n. UnsupportedMessage_Unpack body data = Returns (body', n, None)"
    by (simp add: UnsupportedMessage_Unpack_def go_copy_eq Let_def)
  have b: "\<exists>lbm' n. LBusmonInd_Unpack lbm data = Returns (lbm', n, None)"
    by (simp add: LBusmonInd_Unpack_def go_copy_eq Let_def)
  have c: "\<exists>m. Unpack ps data message = Returns (Some m, len data, None)"
    if "elems data = code # payload" "code = LBusmonIndCode \<or> code \<notin> set registered_codes"
    for code payload
    using that body_Unpack_unregistered [of code ps "Slice payload (spare data)"]
      body_Unpack_LBusmonInd [of ps "Slice payload (spare data)"]
    by (auto simp: Unpack_cons len_def)
  from a b c show ?thesis by blast
qed

theorem Unpack_never_fails_on_raw_bodies_witness:
  "(\<exists>body' n. UnsupportedMessage_Unpack \<lparr>Code = 0, Data = nil_slice\<rparr> (Slice [] []) =
                Returns (body', n, None)) \<and>
   (\<exists>lbm' n. LBusmonInd_Unpack nil_slice (Slice [] []) = Returns (lbm', n, None)) \<and>
   elems (Slice [0x2B] []) = 0x2B # [] \<and>
   (\<exists>m. Unpack failing_Peers (Slice [0x2B] []) None = Returns (Some m, 1, None)) \<and>
   elems (Slice [0x13] []) = 0x13 # [] \<and> 0x13 \<notin> set registered_codes \<and>
   (\<exists>m. Unpack failing_Peers (Slice [0x13] []) None = Returns (Some m, 1, None))"
proof -
  have h2: "(0x13 :: MessageCode) \<notin> set registered_codes"
    by (simp add: registered_codes_def code_defs)
  show ?thesis
    using h2
      Unpack_never_fails_on_raw_bodies
        [of "\<lparr>Code = 0, Data = nil_slice\<rparr>" "Slice [] []" nil_slice failing_Peers None]
      Unpack_never_fails_on_raw_bodies
        [of "\<lparr>Code = 0, Data = nil_slice\<rparr>" "Slice [0x2B] []" nil_slice failing_Peers None]
      Unpack_never_fails_on_raw_bodies
        [of "\<lparr>Code = 0, Data = nil_slice\<rparr>" "Slice [0x13] []" nil_slice failing_Peers None]
    by (simp add: len_def LBusmonIndCode_def)
qed

subsection \<open>Names of message codes\<close>

text \<open>
  Claim C8. \<open>MessageCode_String\<close> gives each of the seven registered codes its name.
  For every other code it gives \<^verbatim>\<open>0x\<close> followed by one or two lower-case hexadecimal
  digits, and these digits read back as the value of the code.
\<close>

theorem MessageCode_String_cases:
  "MessageCode_String 0x2B = ''LBusmonInd'' \<and>
   MessageCode_String 0x11 = ''LDataReq'' \<and>
   MessageCode_String 0x29 = ''LDataInd'' \<and>
   MessageCode_String 0x2E = ''LDataCon'' \<and>
   MessageCode_String 0x10 = ''LRawReq'' \<and>
   MessageCode_String 0x2D = ''LRawInd'' \<and>
   MessageCode_String 0x2F = ''LRawCon'' \<and>
   registered_codes = [0x2B, 0x11, 0x29, 0x2E, 0x10, 0x2D, 0x2F] \<and>
   (code \<notin> set registered_codes \<longrightarrow>
      (\<exists>digits. MessageCode_String code = ''0x'' @ digits \<and>
                digits = hex_digits (unat code) \<and>
                parse_hex 0 digits = Some (unat code) \<and>
                1 \<le> length digits \<and> length digits \<le> 2))"
proof -
  have names: "MessageCode_String 0x2B = ''LBusmonInd''" "MessageCode_String 0x11 = ''LDataReq''"
    "MessageCode_String 0x29 = ''LDataInd''" "MessageCode_String 0x2E = ''LDataCon''"
    "MessageCode_String 0x10 = ''LRawReq''" "MessageCode_String 0x2D = ''LRawInd''"
    "MessageCode_String 0x2F = ''LRawCon''"
    by (simp_all add: MessageCode_String_def code_defs)
  have regs: "registered_codes = [0x2B, 0x11, 0x29, 0x2E, 0x10, 0x2D, 0x2F]"
    by (simp add: registered_codes_def code_defs)
  have lt: "unat code < 256" using unsigned_less [of code, where 'a = nat] by simp
  have len2: "1 \<le> length (hex_digits (unat code)) \<and> length (hex_digits (unat code)) \<le> 2"
  proof (cases "16 \<le> unat code")
    case True
    then have "unat code div 16 < 16" using lt by simp
    then have "hex_digits (unat code) = [hex_digit (unat code div 16), hex_digit (unat code mod 16)]"
      using True by (subst hex_digits.simps, subst hex_digits.simps) simp
    then show ?thesis by simp
  next
    case False
    then have "hex_digits (unat code) = [hex_digit (unat code)]" by (subst hex_digits.simps) simp
    then show ?thesis by simp
  qed
  have other: "MessageCode_String code = ''0x'' @ hex_digits (unat code)"
    if "code \<notin> set registered_codes"
    using that by (simp add: MessageCode_String_def registered_codes_def Sprintf_hex_def del: hex_digits.simps)
  show ?thesis
    using names regs other len2 parse_hex_hex_digits [of "unat code"] by blast
qed

theorem MessageCode_String_cases_witness:
  "0xAB \<notin> set registered_codes \<and> MessageCode_String 0xAB = ''0xab'' \<and>
   parse_hex 0 ''ab'' = Some 171 \<and> unat (0xAB :: MessageCode) = 171"
proof -
  have h: "(0xAB :: MessageCode) \<notin> set registered_codes"
    by (simp add: registered_codes_def code_defs)
  have d: "hex_digits (unat (0xAB :: MessageCode)) = ''ab''"
    by (simp add: hex_digit_def)
  show ?thesis
    using h d MessageCode_String_cases [of "0xAB"] by simp
qed

end
